theory Spec2Isabelle
  imports Complex_Main
begin

section \<open>Job Hunter: a shallow embedding of \<open>job_hunter.py\<close>\<close>

text \<open>
  The program polls a job-search provider, filters the items by keyword and recency,
  stores the new ones in one SQLite table and mails a digest. Every function of the
  source that a property below talks about is translated here, with the source's name.

  Conventions of the embedding.
  \<^item> Python \<open>str\<close> is \<open>string\<close>. Texts are ASCII: \<open>lower\<close> maps \<open>A\<close> to \<open>Z\<close> only, the
    whitespace and word characters are the ASCII ones of Python's \<open>str.isspace\<close> and of
    \<open>\w\<close>. The en dash (U+2013) of two of the experience patterns is no character of
    this type, so the class it stands in holds the hyphen alone.
  \<^item> Python \<open>int\<close> is \<open>int\<close>. Python \<open>float\<close> is the IEEE 754 double: a finite one is a
    mantissa and a binary exponent, and every operation rounds its exact result to the
    nearest double, ties to the even mantissa.
  \<^item> The module-level settings read from the environment are parameters of the functions
    that use them; the clock \<open>datetime.now(timezone.utc).timestamp()\<close> is a parameter
    \<open>now\<close> wherever it is read.
  \<^item> An exception is a value: a function that can raise returns \<open>exn + 'a\<close>.
\<close>

subsection \<open>Text helpers: \<open>str.lower\<close>, \<open>in\<close>, \<open>str.strip\<close>\<close>

definition lower_char :: "char \<Rightarrow> char" where
  "lower_char c =
     (case map_of (zip ''ABCDEFGHIJKLMNOPQRSTUVWXYZ'' ''abcdefghijklmnopqrstuvwxyz'') c of
        Some l \<Rightarrow> l
      | None \<Rightarrow> c)"

definition lower :: "string \<Rightarrow> string" where
  "lower s = map lower_char s"

text \<open>\<open>k in s\<close> on strings: \<open>k\<close> occurs in \<open>s\<close> as a contiguous block.\<close>

fun starts_with :: "string \<Rightarrow> string \<Rightarrow> bool" where
  "starts_with [] s = True"
| "starts_with (k # ks) [] = False"
| "starts_with (k # ks) (c # cs) = (k = c \<and> starts_with ks cs)"

fun str_in :: "string \<Rightarrow> string \<Rightarrow> bool" where
  "str_in k [] = (k = [])"
| "str_in k (c # cs) = (starts_with k (c # cs) \<or> str_in k cs)"

text \<open>The characters \<open>str.isspace\<close> accepts below 128: 9 to 13, 28 to 32.\<close>

definition is_space :: "char \<Rightarrow> bool" where
  "is_space c = (c \<in> set [CHR 0x09, CHR 0x0A, CHR 0x0B, CHR 0x0C, CHR 0x0D,
                           CHR 0x1C, CHR 0x1D, CHR 0x1E, CHR 0x1F, CHR 0x20])"

definition strip :: "string \<Rightarrow> string" where
  "strip s = rev (dropWhile is_space (rev (dropWhile is_space s)))"

subsection \<open>Filtering helpers\<close>

text \<open>
  \<^verbatim>\<open>
  def contains_any(text: str, keywords):
      text_low = (text or "").lower()
      return any(kw.lower() in text_low for kw in keywords)
  \<close>
  On a string, \<open>text or ""\<close> is \<open>text\<close>.
\<close>

definition contains_any :: "string \<Rightarrow> string list \<Rightarrow> bool" where
  "contains_any text keywords =
     (let text_low = lower text in list_ex (\<lambda>kw. str_in (lower kw) text_low) keywords)"

text \<open>
  The fragment of regular expressions the nine patterns of \<open>experience_ok\<close> are written
  in: a character class taken once, optionally (\<open>?\<close>), any number of times (\<open>*\<close>) or at
  least once (\<open>+\<close>), the word boundary \<open>\b\<close>, and an optional group \<open>(...)?\<close> of such
  pieces.
\<close>

datatype atom = AChr char | ASpace

datatype piece = One "atom list" | Opt "atom list" | Star "atom list" | Plus "atom list" | WordB

datatype rx = P piece | G "piece list"

fun atom_ok :: "atom \<Rightarrow> char \<Rightarrow> bool" where
  "atom_ok (AChr k) c = (c = k)"
| "atom_ok ASpace c = is_space c"

definition cls_ok :: "atom list \<Rightarrow> char \<Rightarrow> bool" where
  "cls_ok cl c = list_ex (\<lambda>a. atom_ok a c) cl"

definition is_word :: "char \<Rightarrow> bool" where
  "is_word c = (c \<in> set ''abcdefghijklmnopqrstuvwxyzABCDEFGHIJKLMNOPQRSTUVWXYZ0123456789_'')"

text \<open>
  \<open>\b\<close> holds between the previous character (\<open>None\<close> at the start of the text) and the
  next one (none at its end) when exactly one of the two is a word character.
\<close>

definition at_boundary :: "char option \<Rightarrow> string \<Rightarrow> bool" where
  "at_boundary prev s =
     ((case prev of None \<Rightarrow> False | Some c \<Rightarrow> is_word c) \<noteq>
      (case s of [] \<Rightarrow> False | c # _ \<Rightarrow> is_word c))"

fun piece_weight :: "piece \<Rightarrow> nat" where
  "piece_weight (One _) = 1"
| "piece_weight (Opt _) = 2"
| "piece_weight (Star _) = 1"
| "piece_weight (Plus _) = 3"
| "piece_weight WordB = 1"

fun rx_weight :: "rx \<Rightarrow> nat" where
  "rx_weight (P p) = piece_weight p"
| "rx_weight (G g) = Suc (sum_list (map piece_weight g))"

text \<open>
  \<open>rmatch r prev s\<close>: the pattern \<open>r\<close> matches a prefix of \<open>s\<close>, the text before \<open>s\<close>
  ending in \<open>prev\<close>. The search of a backtracking matcher succeeds exactly when some
  choice of repetitions matches, which is what the disjunctions explore.
\<close>

function rmatch :: "rx list \<Rightarrow> char option \<Rightarrow> string \<Rightarrow> bool" where
  "rmatch [] prev s = True"
| "rmatch (P (One cl) # r) prev s =
     (case s of [] \<Rightarrow> False | c # cs \<Rightarrow> cls_ok cl c \<and> rmatch r (Some c) cs)"
| "rmatch (P (Opt cl) # r) prev s = (rmatch (P (One cl) # r) prev s \<or> rmatch r prev s)"
| "rmatch (P (Star cl) # r) prev s =
     ((case s of [] \<Rightarrow> False | c # cs \<Rightarrow> cls_ok cl c \<and> rmatch (P (Star cl) # r) (Some c) cs)
      \<or> rmatch r prev s)"
| "rmatch (P (Plus cl) # r) prev s = rmatch (P (One cl) # P (Star cl) # r) prev s"
| "rmatch (P WordB # r) prev s = (at_boundary prev s \<and> rmatch r prev s)"
| "rmatch (G g # r) prev s = (rmatch (map P g @ r) prev s \<or> rmatch r prev s)"
  by pat_completeness auto
termination
  by (relation "measures [\<lambda>(r, prev, s). sum_list (map rx_weight r), \<lambda>(r, prev, s). length s]")
     (auto simp: comp_def)

text \<open>\<open>re.search\<close>: the pattern matches at some position of the text.\<close>

fun rsearch_from :: "rx list \<Rightarrow> char option \<Rightarrow> string \<Rightarrow> bool" where
  "rsearch_from r prev [] = rmatch r prev []"
| "rsearch_from r prev (c # cs) = (rmatch r prev (c # cs) \<or> rsearch_from r (Some c) cs)"

definition re_search :: "rx list \<Rightarrow> string \<Rightarrow> bool" where
  "re_search r s = rsearch_from r None s"

definition lit :: "string \<Rightarrow> rx list" where
  "lit s = map (\<lambda>c. P (One [AChr c])) s"

definition sp_star :: "rx list" where
  "sp_star = [P (Star [ASpace])]"

text \<open>
  \<^verbatim>\<open>
  patterns = [
      r"\b0\s*[-U+2013]\s*6\s*months?\b",
      r"\b0\s*to\s*6\s*months?\b",
      r"\b0\s*[-U+2013]\s*1\s*years?\b",
      r"\b0\s*to\s*1\s*years?\b",
      r"\b(up\s*to\s*)?6\s*months?\s*(of)?\s*experience\b",
      r"\bfresher(s)?\b",
      r"\bentry[-\s]?level\b",
      r"\bno\s+experience\b",
      r"\b0\+?\s*years?\b"
  ]
  \<close>
\<close>

definition patterns :: "rx list list" where
  "patterns =
    [ [P WordB] @ lit ''0'' @ sp_star @ [P (One [AChr CHR ''-''])] @ sp_star @ lit ''6'' @ sp_star
        @ lit ''month'' @ [P (Opt [AChr CHR ''s'']), P WordB],
      [P WordB] @ lit ''0'' @ sp_star @ lit ''to'' @ sp_star @ lit ''6'' @ sp_star
        @ lit ''month'' @ [P (Opt [AChr CHR ''s'']), P WordB],
      [P WordB] @ lit ''0'' @ sp_star @ [P (One [AChr CHR ''-''])] @ sp_star @ lit ''1'' @ sp_star
        @ lit ''year'' @ [P (Opt [AChr CHR ''s'']), P WordB],
      [P WordB] @ lit ''0'' @ sp_star @ lit ''to'' @ sp_star @ lit ''1'' @ sp_star
        @ lit ''year'' @ [P (Opt [AChr CHR ''s'']), P WordB],
      [P WordB, G [One [AChr CHR ''u''], One [AChr CHR ''p''], Star [ASpace],
                   One [AChr CHR ''t''], One [AChr CHR ''o''], Star [ASpace]]]
        @ lit ''6'' @ sp_star @ lit ''month'' @ [P (Opt [AChr CHR ''s''])] @ sp_star
        @ [G [One [AChr CHR ''o''], One [AChr CHR ''f'']]] @ sp_star
        @ lit ''experience'' @ [P WordB],
      [P WordB] @ lit ''fresher'' @ [G [One [AChr CHR ''s'']], P WordB],
      [P WordB] @ lit ''entry'' @ [P (Opt [AChr CHR ''-'', ASpace])] @ lit ''level'' @ [P WordB],
      [P WordB] @ lit ''no'' @ [P (Plus [ASpace])] @ lit ''experience'' @ [P WordB],
      [P WordB] @ lit ''0'' @ [P (Opt [AChr CHR ''+''])] @ sp_star
        @ lit ''year'' @ [P (Opt [AChr CHR ''s'']), P WordB] ]"

text \<open>
  \<^verbatim>\<open>
  def experience_ok(text: str) -> bool:
      if contains_any(text, EXP_KEYWORDS):
          return True
      patterns = [...]
      txt = (text or "").lower()
      for p in patterns:
          if re.search(p, txt):
              return True
      return False
  \<close>
\<close>

definition experience_ok :: "string list \<Rightarrow> string \<Rightarrow> bool" where
  "experience_ok EXP_KEYWORDS text =
     (if contains_any text EXP_KEYWORDS then True
      else (let txt = lower text in list_ex (\<lambda>p. re_search p txt) patterns))"

definition role_ok :: "string list \<Rightarrow> string \<Rightarrow> bool" where
  "role_ok ROLE_KEYWORDS text = contains_any text ROLE_KEYWORDS"

definition skills_ok :: "string list \<Rightarrow> string \<Rightarrow> bool" where
  "skills_ok SKILL_KEYWORDS text = contains_any text SKILL_KEYWORDS"

text \<open>The default of the setting \<open>EXP_KEYWORDS\<close>.\<close>

definition default_EXP_KEYWORDS :: "string list" where
  "default_EXP_KEYWORDS =
     [''fresher'', ''0-6 months'', ''0 to 6 months'', ''0-1 year'', ''0 to 1 year'',
      ''no experience'', ''entry level'', ''junior'', ''trainee'']"

subsection \<open>Exceptions\<close>

text \<open>
  The exceptions the program can meet. \<open>except Exception\<close> catches every one of them but
  \<open>KeyboardInterrupt\<close> and \<open>SystemExit\<close>, which derive from \<open>BaseException\<close> alone.
\<close>

datatype exn =
    AttributeError | TypeError | ValueError | OverflowError | KeyError
  | HTTPError | IntegrityError | ProgrammingError | OperationalError | OSError | SMTPException
  | KeyboardInterrupt | SystemExit

definition is_Exception :: "exn \<Rightarrow> bool" where
  "is_Exception e = (e \<noteq> KeyboardInterrupt \<and> e \<noteq> SystemExit)"

subsection \<open>Floats\<close>

text \<open>
  \<open>Fin m e\<close> is the finite double \<open>m * 2 ^ e\<close>; \<open>Inf\<close>, \<open>NegInf\<close> and \<open>NaN\<close> are the three other
  floats. The doubles are the numbers \<open>m * 2 ^ e\<close> with \<open>\<bar>m\<bar> < 2 ^ 53\<close> and
  \<open>- 1074 \<le> e \<le> 971\<close>. The sign of a zero is not kept: no operation below tells the two
  zeros apart.
\<close>

datatype pyfloat = Fin int int | Inf | NegInf | NaN

definition val :: "int \<Rightarrow> int \<Rightarrow> real" where
  "val m e = real_of_int m * 2 powi e"

text \<open>\<open>m * 2 ^ k\<close> for \<open>k \<ge> 0\<close>, and \<open>m\<close> itself for a negative \<open>k\<close>.\<close>

definition shl :: "int \<Rightarrow> int \<Rightarrow> int" where
  "shl m k = m * 2 ^ nat k"

text \<open>The integer nearest to \<open>a / b\<close> for \<open>b > 0\<close>, the even one of two equally near.\<close>

definition rne :: "int \<Rightarrow> int \<Rightarrow> int" where
  "rne a b = (let q = a div b; r = a mod b
              in if b < 2 * r \<or> (2 * r = b \<and> odd q) then q + 1 else q)"

text \<open>The number of binary digits of a positive integer (\<open>int.bit_length\<close>).\<close>

function bit_length :: "int \<Rightarrow> nat" where
  "bit_length n = (if n \<le> 0 then 0 else Suc (bit_length (n div 2)))"
  by pat_completeness auto
termination
  by (relation "measure nat") auto

declare bit_length.simps [simp del]

text \<open>For positive \<open>a\<close> and \<open>b\<close>, the \<open>l\<close> with \<open>2 ^ l \<le> a / b < 2 ^ (l + 1)\<close>.\<close>

definition ilog2 :: "int \<Rightarrow> int \<Rightarrow> int" where
  "ilog2 a b = (let l = int (bit_length a) - int (bit_length b)
                in if shl b l \<le> shl a (- l) then l else l - 1)"

text \<open>
  The double nearest to \<open>a / b * 2 ^ e\<close> (\<open>b > 0\<close>). \<open>t\<close> is the exponent of the last mantissa
  bit at the size of the number, \<open>- 1074\<close> at least; the mantissa is the number in units
  of \<open>2 ^ t\<close>, rounded. A result of size \<open>2 ^ 1024\<close> is an overflow.
\<close>

definition rnd :: "int \<Rightarrow> int \<Rightarrow> int \<Rightarrow> pyfloat" where
  "rnd a b e =
     (if a = 0 then Fin 0 0
      else let t = max (ilog2 \<bar>a\<bar> b + e - 52) (- 1074);
               n = rne (shl a (e - t)) (shl b (t - e))
           in if 2 ^ nat (1024 - t) \<le> \<bar>n\<bar> then (if 0 < a then Inf else NegInf)
              else Fin n t)"

text \<open>
  \<open>float(n)\<close> of an \<open>int\<close>, also where an \<open>int\<close> meets a float in arithmetic: the nearest
  double, \<open>OverflowError\<close> when there is none.
\<close>

definition float_of_int :: "int \<Rightarrow> exn + pyfloat" where
  "float_of_int n =
     (case rnd n 1 0 of Fin m e \<Rightarrow> Inr (Fin m e) | _ \<Rightarrow> Inl OverflowError)"

text \<open>\<open>x - y\<close> on floats.\<close>

fun fsub :: "pyfloat \<Rightarrow> pyfloat \<Rightarrow> pyfloat" where
  "fsub (Fin a d) (Fin b e) = (let g = min d e in rnd (shl a (d - g) - shl b (e - g)) 1 g)"
| "fsub NaN y = NaN"
| "fsub x NaN = NaN"
| "fsub Inf Inf = NaN"
| "fsub NegInf NegInf = NaN"
| "fsub Inf y = Inf"
| "fsub NegInf y = NegInf"
| "fsub (Fin a d) Inf = NegInf"
| "fsub (Fin a d) NegInf = Inf"

text \<open>\<open>x / b\<close> for a float \<open>x\<close> and a positive whole number \<open>b\<close> (here the constant 3600.0).\<close>

fun fdiv :: "pyfloat \<Rightarrow> int \<Rightarrow> pyfloat" where
  "fdiv (Fin a d) b = rnd a b d"
| "fdiv x b = x"

text \<open>\<open>x <= y\<close> on floats: false as soon as one side is \<open>NaN\<close>.\<close>

fun fle :: "pyfloat \<Rightarrow> pyfloat \<Rightarrow> bool" where
  "fle NaN y = False"
| "fle x NaN = False"
| "fle (Fin a d) (Fin b e) = (let g = min d e in shl a (d - g) \<le> shl b (e - g))"
| "fle NegInf y = True"
| "fle x Inf = True"
| "fle x y = False"

subsection \<open>The recency predicate\<close>

text \<open>
  \<^verbatim>\<open>
  def posted_recent(posted_ts: int, max_age_hours: float) -> bool:
      if not posted_ts:
          return False
      now = datetime.now(timezone.utc).timestamp()
      age_hours = (now - posted_ts) / 3600.0
      return age_hours <= max_age_hours
  \<close>
  \<open>now\<close> is a float and \<open>posted_ts\<close> an \<open>int\<close> of any size: the subtraction converts
  \<open>posted_ts\<close> to a float first, which raises \<open>OverflowError\<close> on an integer beyond the
  doubles.
\<close>

definition posted_recent :: "pyfloat \<Rightarrow> int \<Rightarrow> pyfloat \<Rightarrow> exn + bool" where
  "posted_recent now posted_ts max_age_hours =
     (if posted_ts = 0 then Inr False
      else case float_of_int posted_ts of
             Inl e \<Rightarrow> Inl e
           | Inr f \<Rightarrow> (let age_hours = fdiv (fsub now f) 3600
                       in Inr (fle age_hours max_age_hours)))"

subsection \<open>Provider items: the values \<open>resp.json()\<close> returns\<close>

text \<open>A \<open>dict\<close> is the list of its items, the keys distinct.\<close>

datatype json =
    JNull | JBool bool | JInt int | JFloat pyfloat | JStr string
  | JArr "json list" | JObj "(string \<times> json) list"

text \<open>Truth value of a Python object, as \<open>or\<close>, \<open>if\<close> and \<open>not\<close> test it.\<close>

fun truthy :: "json \<Rightarrow> bool" where
  "truthy JNull = False"
| "truthy (JBool b) = b"
| "truthy (JInt n) = (n \<noteq> 0)"
| "truthy (JFloat (Fin m e)) = (m \<noteq> 0)"
| "truthy (JFloat _) = True"
| "truthy (JStr s) = (s \<noteq> [])"
| "truthy (JArr xs) = (xs \<noteq> [])"
| "truthy (JObj kvs) = (kvs \<noteq> [])"

text \<open>\<open>a or b\<close>: \<open>a\<close> when it is true, else \<open>b\<close>.\<close>

definition py_or :: "json \<Rightarrow> json \<Rightarrow> json" where
  "py_or a b = (if truthy a then a else b)"

text \<open>\<open>d.get(k)\<close> on the items of a dict: \<open>None\<close> when the key is absent.\<close>

definition dict_get :: "(string \<times> json) list \<Rightarrow> string \<Rightarrow> json" where
  "dict_get kvs k = (case map_of kvs k of None \<Rightarrow> JNull | Some v \<Rightarrow> v)"

text \<open>\<open>v.strip()\<close>: only a \<open>str\<close> has the method.\<close>

definition py_strip :: "json \<Rightarrow> exn + string" where
  "py_strip v = (case v of JStr s \<Rightarrow> Inr (strip s) | _ \<Rightarrow> Inl AttributeError)"

subsection \<open>The built-ins \<open>int\<close> and \<open>str\<close>\<close>

definition digit_of :: "char \<Rightarrow> int option" where
  "digit_of c = map_of (zip ''0123456789'' [0, 1, 2, 3, 4, 5, 6, 7, 8, 9]) c"

text \<open>
  The digits after the first one: single underscores may stand between two digits.
\<close>

fun parse_digits :: "int \<Rightarrow> string \<Rightarrow> int option" where
  "parse_digits acc [] = Some acc"
| "parse_digits acc [c] =
     (case digit_of c of None \<Rightarrow> None | Some v \<Rightarrow> Some (10 * acc + v))"
| "parse_digits acc (c # d # ds) =
     (if c = CHR ''_'' then
        (case digit_of d of None \<Rightarrow> None | Some v \<Rightarrow> parse_digits (10 * acc + v) ds)
      else
        (case digit_of c of None \<Rightarrow> None | Some v \<Rightarrow> parse_digits (10 * acc + v) (d # ds)))"

definition parse_nat :: "string \<Rightarrow> int option" where
  "parse_nat s =
     (case s of
        [] \<Rightarrow> None
      | c # cs \<Rightarrow> (case digit_of c of None \<Rightarrow> None | Some v \<Rightarrow> parse_digits v cs))"

text \<open>
  \<open>int(s)\<close> on a string: surrounding whitespace is dropped, one sign may lead, decimal
  digits follow. The whitespace \<open>int\<close> drops from an ASCII string is that of C's
  \<open>isspace\<close>, the characters 9 to 13 and 32: unlike \<open>str.strip\<close> it keeps the separators
  28 to 31, and then raises on them. (The limit recent Python versions put on the number
  of digits is left out.)
\<close>

definition is_c_space :: "char \<Rightarrow> bool" where
  "is_c_space c = (c \<in> set [CHR 0x09, CHR 0x0A, CHR 0x0B, CHR 0x0C, CHR 0x0D, CHR 0x20])"

definition int_of_str :: "string \<Rightarrow> exn + int" where
  "int_of_str s =
     (let t = rev (dropWhile is_c_space (rev (dropWhile is_c_space s)));
          (neg, body) = (case t of
                           [] \<Rightarrow> (False, [])
                         | c # cs \<Rightarrow> if c = CHR ''-'' then (True, cs)
                                    else if c = CHR ''+'' then (False, cs)
                                    else (False, t))
      in case parse_nat body of
           None \<Rightarrow> Inl ValueError
         | Some n \<Rightarrow> Inr (if neg then - n else n))"

text \<open>\<open>int(x)\<close> of a float rounds towards zero.\<close>

definition trunc :: "int \<Rightarrow> int \<Rightarrow> int" where
  "trunc m e = (if 0 \<le> e then shl m e
                else if 0 \<le> m then m div 2 ^ nat (- e) else - ((- m) div 2 ^ nat (- e)))"

fun py_int :: "json \<Rightarrow> exn + int" where
  "py_int (JInt n) = Inr n"
| "py_int (JBool b) = Inr (if b then 1 else 0)"
| "py_int (JFloat (Fin m e)) = Inr (trunc m e)"
| "py_int (JFloat NaN) = Inl ValueError"
| "py_int (JFloat _) = Inl OverflowError"
| "py_int (JStr s) = int_of_str s"
| "py_int _ = Inl TypeError"

definition digit_char :: "int \<Rightarrow> char" where
  "digit_char d = ''0123456789'' ! nat d"

function dec_digits :: "int \<Rightarrow> string" where
  "dec_digits n =
     (if n < 10 then [digit_char n] else dec_digits (n div 10) @ [digit_char (n mod 10)])"
  by pat_completeness auto
termination
  by (relation "measure nat") auto

text \<open>\<open>str(n)\<close> of an \<open>int\<close>: its decimal digits, a minus sign before a negative one.\<close>

definition str_int :: "int \<Rightarrow> string" where
  "str_int n = (if n < 0 then CHR ''-'' # dec_digits (- n) else dec_digits n)"

text \<open>
  \<open>str(v)\<close>. The text Python prints for a float, a list or a dict is the parameter
  \<open>repr\<close>.
\<close>

definition py_str :: "(json \<Rightarrow> string) \<Rightarrow> json \<Rightarrow> string" where
  "py_str repr v =
     (case v of
        JStr s \<Rightarrow> s
      | JInt n \<Rightarrow> str_int n
      | JBool b \<Rightarrow> (if b then ''True'' else ''False'')
      | JNull \<Rightarrow> ''None''
      | _ \<Rightarrow> repr v)"

subsection \<open>Normalisation of a provider item\<close>

text \<open>
  The job dict \<open>parse_jsearch_item\<close> builds. \<open>url\<close> is whatever the provider put in the link
  field: the source passes it on untouched.
\<close>

record job =
  source :: string
  external_id :: "string option"
  title :: string
  company :: string
  location :: string
  description :: string
  url :: json
  posted_at_utc :: int

text \<open>
  \<^verbatim>\<open>
  def parse_jsearch_item(item: dict) -> dict:
      job_id = item.get("job_id") or item.get("job_posting_id") or item.get("id")
      title = (item.get("job_title") or item.get("title") or "").strip()
      company = (item.get("employer_name") or item.get("company_name") or "").strip()
      location = (item.get("job_city") or item.get("job_location") or item.get("job_country")
                  or item.get("job_state") or ("Remote" if item.get("job_is_remote") else "")).strip()
      desc = (item.get("job_description") or item.get("description") or "").strip()
      url = item.get("job_apply_link") or (item.get("job_google_link") or "")
      ts = 0
      if item.get("job_posted_at_timestamp"):
          try:
              ts = int(item.get("job_posted_at_timestamp"))
          except Exception:
              ts = 0
      return {"source": "jsearch", "external_id": str(job_id) if job_id else None,
              "title": title, "company": company, "location": location,
              "description": desc, "url": url, "posted_at_utc": ts}
  \<close>
  An item that is no dict has no \<open>get\<close>: \<open>AttributeError\<close>. The four \<open>strip\<close> calls run in
  the order of the source; the first that raises ends the function.
\<close>

definition parse_ts :: "json \<Rightarrow> int" where
  "parse_ts v =
     (if truthy v then (case py_int v of Inr n \<Rightarrow> n | Inl e \<Rightarrow> 0) else 0)"

definition parse_jsearch_item :: "(json \<Rightarrow> string) \<Rightarrow> json \<Rightarrow> exn + job" where
  "parse_jsearch_item repr item =
     (case item of
        JObj kvs \<Rightarrow>
          (let get = dict_get kvs;
               job_id = py_or (get ''job_id'') (py_or (get ''job_posting_id'') (get ''id''))
           in case py_strip (py_or (get ''job_title'') (py_or (get ''title'') (JStr ''''))) of
                Inl e \<Rightarrow> Inl e
              | Inr title' \<Rightarrow>
            (case py_strip (py_or (get ''employer_name'')
                             (py_or (get ''company_name'') (JStr ''''))) of
                Inl e \<Rightarrow> Inl e
              | Inr company' \<Rightarrow>
            (case py_strip (py_or (get ''job_city'') (py_or (get ''job_location'')
                             (py_or (get ''job_country'') (py_or (get ''job_state'')
                               (if truthy (get ''job_is_remote'') then JStr ''Remote''
                                else JStr ''''))))) of
                Inl e \<Rightarrow> Inl e
              | Inr location' \<Rightarrow>
            (case py_strip (py_or (get ''job_description'')
                             (py_or (get ''description'') (JStr ''''))) of
                Inl e \<Rightarrow> Inl e
              | Inr desc \<Rightarrow>
                  Inr \<lparr> source = ''jsearch'',
                        external_id = (if truthy job_id then Some (py_str repr job_id) else None),
                        title = title',
                        company = company',
                        location = location',
                        description = desc,
                        url = py_or (get ''job_apply_link'')
                                (py_or (get ''job_google_link'') (JStr '''')),
                        posted_at_utc = parse_ts (get ''job_posted_at_timestamp'') \<rparr>))))
      | _ \<Rightarrow> Inl AttributeError)"




subsection \<open>Settings\<close>

text \<open>
  The module-level settings the functions below read, as the program holds them after
  start-up: the keyword and location lists are lists of strings, the numbers are parsed.
\<close>

record config =
  SMTP_HOST :: string
  EMAIL_TO :: string
  DEFAULT_COUNTRY :: string
  INCLUDE_REMOTE :: bool
  RUN_EVERY_HOURS :: pyfloat
  MAX_POST_AGE_HOURS :: pyfloat
  ROLE_KEYWORDS :: "string list"
  SKILL_KEYWORDS :: "string list"
  EXP_KEYWORDS :: "string list"
  LOCATIONS :: "string list"
  MAX_RESULTS_PER_RUN :: int
  PAGES_PER_QUERY :: int


subsection \<open>The clock\<close>

text \<open>
  \<open>datetime.now(timezone.utc)\<close> is a whole number of microseconds since the epoch; the
  \<open>k\<close>-th reading of a run is \<open>clock k\<close>. \<open>timestamp()\<close> divides it by \<open>10 ^ 6\<close>, giving the
  nearest float.
\<close>

definition timestamp :: "int \<Rightarrow> pyfloat" where
  "timestamp us = rnd us 1000000 0"

text \<open>\<open>posted_recent\<close> reads the clock only after it has seen a non-zero timestamp.\<close>

definition posted_recent_at ::
  "(nat \<Rightarrow> int) \<Rightarrow> nat \<Rightarrow> int \<Rightarrow> pyfloat \<Rightarrow> (exn + bool) \<times> nat" where
  "posted_recent_at clock k posted_ts max_age_hours =
     (posted_recent (timestamp (clock k)) posted_ts max_age_hours,
      if posted_ts = 0 then k else Suc k)"

subsection \<open>The filter of one fetched item\<close>

text \<open>\<open>sep.join(xs)\<close>.\<close>

fun join :: "string \<Rightarrow> string list \<Rightarrow> string" where
  "join sep [] = []"
| "join sep [x] = x"
| "join sep (x # y # ys) = x @ sep @ join sep (y # ys)"

text \<open>
  The body of the innermost loop of \<open>search_and_notify\<close>:
  \<^verbatim>\<open>
  job = parse_jsearch_item(item)
  text_blob = " ".join([job.get("title", ""), job.get("description", ""),
                        job.get("company", ""), job.get("location", "")])
  if not role_ok(text_blob):
      continue
  if not skills_ok(text_blob):
      continue
  if not experience_ok(text_blob):
      continue
  if not posted_recent(job.get("posted_at_utc", 0), MAX_POST_AGE_HOURS):
      continue
  collected.append(job)
  \<close>
  The result is the exception that ends the loop, if any, the number of clock readings
  so far and the list \<open>collected\<close>. What was appended before an exception stays appended.
\<close>

definition process_item ::
  "config \<Rightarrow> (json \<Rightarrow> string) \<Rightarrow> (nat \<Rightarrow> int) \<Rightarrow> nat \<Rightarrow> job list \<Rightarrow> json
     \<Rightarrow> exn option \<times> nat \<times> job list" where
  "process_item cfg repr clock k collected item =
     (case parse_jsearch_item repr item of
        Inl e \<Rightarrow> (Some e, k, collected)
      | Inr job \<Rightarrow>
          (let text_blob = join '' '' [title job, description job, company job, location job]
           in if \<not> role_ok (ROLE_KEYWORDS cfg) text_blob then (None, k, collected)
              else if \<not> skills_ok (SKILL_KEYWORDS cfg) text_blob then (None, k, collected)
              else if \<not> experience_ok (EXP_KEYWORDS cfg) text_blob then (None, k, collected)
              else (case posted_recent_at clock k (posted_at_utc job) (MAX_POST_AGE_HOURS cfg) of
                      (Inl e, k') \<Rightarrow> (Some e, k', collected)
                    | (Inr r, k') \<Rightarrow>
                        if \<not> r then (None, k', collected)
                        else (None, k', collected @ [job]))))"

fun process_items ::
  "config \<Rightarrow> (json \<Rightarrow> string) \<Rightarrow> (nat \<Rightarrow> int) \<Rightarrow> nat \<Rightarrow> job list \<Rightarrow> json list
     \<Rightarrow> exn option \<times> nat \<times> job list" where
  "process_items cfg repr clock k collected [] = (None, k, collected)"
| "process_items cfg repr clock k collected (item # items) =
     (case process_item cfg repr clock k collected item of
        (Some e, k', collected') \<Rightarrow> (Some e, k', collected')
      | (None, k', collected') \<Rightarrow> process_items cfg repr clock k' collected' items)"

subsection \<open>De-duplication in memory\<close>

text \<open>
  \<^verbatim>\<open>
  unique = {}
  for j in collected:
      key = j.get("external_id") or (j.get("title"), j.get("company"), j.get("location"), j.get("url"))
      unique[key] = j
  unique_jobs = list(unique.values())
  \<close>
  A dict key is hashed and compared with \<open>==\<close>. \<open>hash_val\<close> gives a provider value the form
  under which two values are the same key exactly when the forms are equal: \<open>True\<close>, \<open>1\<close>
  and \<open>1.0\<close> are one key, a number is kept as an odd mantissa and an exponent, a \<open>NaN\<close> is
  equal to no other object and carries the position of its job, a list or a dict cannot be
  hashed (\<open>TypeError\<close>). A string is never equal to a tuple.
\<close>

datatype hval = HNone | HNum int int | HInf | HNegInf | HNaN nat | HStr string

datatype key = KId string | KTup string string string hval

function norm2 :: "int \<Rightarrow> int \<Rightarrow> int \<times> int" where
  "norm2 m e = (if m = 0 then (0, 0) else if even m then norm2 (m div 2) (e + 1) else (m, e))"
  by pat_completeness auto
termination
  by (relation "measure (\<lambda>(m, e). nat \<bar>m\<bar>)") auto

declare norm2.simps [simp del]

definition hnum :: "int \<Rightarrow> int \<Rightarrow> hval" where
  "hnum m e = (case norm2 m e of (m', e') \<Rightarrow> HNum m' e')"

fun hash_val :: "nat \<Rightarrow> json \<Rightarrow> exn + hval" where
  "hash_val i JNull = Inr HNone"
| "hash_val i (JBool b) = Inr (hnum (if b then 1 else 0) 0)"
| "hash_val i (JInt n) = Inr (hnum n 0)"
| "hash_val i (JFloat (Fin m e)) = Inr (hnum m e)"
| "hash_val i (JFloat Inf) = Inr HInf"
| "hash_val i (JFloat NegInf) = Inr HNegInf"
| "hash_val i (JFloat NaN) = Inr (HNaN i)"
| "hash_val i (JStr s) = Inr (HStr s)"
| "hash_val i (JArr xs) = Inl TypeError"
| "hash_val i (JObj kvs) = Inl TypeError"

text \<open>The key of the \<open>i\<close>-th collected job, as the dict sees it.\<close>

definition dedup_key :: "nat \<Rightarrow> job \<Rightarrow> exn + key" where
  "dedup_key i j =
     (case external_id j of
        Some s \<Rightarrow>
          if s \<noteq> [] then Inr (KId s)
          else (case hash_val i (url j) of
                  Inl e \<Rightarrow> Inl e
                | Inr h \<Rightarrow> Inr (KTup (title j) (company j) (location j) h))
      | None \<Rightarrow>
          (case hash_val i (url j) of
             Inl e \<Rightarrow> Inl e
           | Inr h \<Rightarrow> Inr (KTup (title j) (company j) (location j) h)))"

text \<open>
  \<open>d[k] = v\<close> on a dict held as the list of its items in insertion order: a key already
  there keeps its place and takes the new value, a new key goes to the end.
\<close>

fun dict_set :: "('k \<times> 'v) list \<Rightarrow> 'k \<Rightarrow> 'v \<Rightarrow> ('k \<times> 'v) list" where
  "dict_set [] k v = [(k, v)]"
| "dict_set ((k', v') # d) k v =
     (if k' = k then (k', v) # d else (k', v') # dict_set d k v)"

fun dedup_loop :: "nat \<Rightarrow> (key \<times> job) list \<Rightarrow> job list \<Rightarrow> exn + (key \<times> job) list" where
  "dedup_loop i unique [] = Inr unique"
| "dedup_loop i unique (j # js) =
     (case dedup_key i j of
        Inl e \<Rightarrow> Inl e
      | Inr key \<Rightarrow> dedup_loop (Suc i) (dict_set unique key j) js)"

definition dedup :: "job list \<Rightarrow> exn + job list" where
  "dedup collected =
     (case dedup_loop 0 [] collected of
        Inl e \<Rightarrow> Inl e
      | Inr unique \<Rightarrow> Inr (map snd unique))"

text \<open>
  A job whose key does not depend on its position and can be hashed: it has a non-empty
  external identifier, or its link is \<open>None\<close>, a truth value, a number other than \<open>NaN\<close> or a
  string.
\<close>

definition plain_key :: "job \<Rightarrow> bool" where
  "plain_key j =
     ((case external_id j of Some s \<Rightarrow> s \<noteq> [] | None \<Rightarrow> False)
      \<or> (case url j of JArr xs \<Rightarrow> False | JObj kvs \<Rightarrow> False | JFloat NaN \<Rightarrow> False | _ \<Rightarrow> True))"

subsection \<open>The state of a run\<close>

text \<open>
  What the program changes: the table \<open>jobs\<close> (its rows in \<open>rowid\<close> order and the counter of
  \<open>AUTOINCREMENT\<close>), the log, the number of clock readings and of provider requests made
  so far, and the mails handed to the transport.
\<close>

datatype level = INFO | WARNING | ERROR

record row =
  r_id :: int
  r_source :: string
  r_external_id :: "string option"
  r_title :: string
  r_company :: string
  r_location :: string
  r_url :: "string option"
  r_posted_at_utc :: int
  r_description :: string
  r_created_at_utc :: int

record state =
  rows :: "row list"
  seq :: int
  log :: "(level \<times> string) list"
  ticks :: nat
  requests :: nat
  outbox :: "(string \<times> string) list"

definition logging :: "level \<Rightarrow> string \<Rightarrow> state \<Rightarrow> state" where
  "logging l msg st = st \<lparr> log := log st @ [(l, msg)] \<rparr>"

subsection \<open>The table and its two unique indexes\<close>

text \<open>
  \<^verbatim>\<open>
  CREATE TABLE IF NOT EXISTS jobs (
      id INTEGER PRIMARY KEY AUTOINCREMENT, source TEXT NOT NULL, external_id TEXT,
      title TEXT, company TEXT, location TEXT, url TEXT, posted_at_utc INTEGER,
      description TEXT, created_at_utc INTEGER);
  CREATE UNIQUE INDEX IF NOT EXISTS uq_jobs_source_external ON jobs(source, external_id)
  CREATE UNIQUE INDEX IF NOT EXISTS uq_jobs_fallback ON jobs(title, company, location, url)
  \<close>
  A column is \<open>None\<close> when it holds \<open>NULL\<close>. In a unique index a \<open>NULL\<close> is different from every
  value, another \<open>NULL\<close> included: two rows collide on an index only when all its columns
  are equal and none is \<open>NULL\<close>.
\<close>

definition sql_conflict :: "row \<Rightarrow> row \<Rightarrow> bool" where
  "sql_conflict r c =
     ((r_source r = r_source c \<and> r_external_id r \<noteq> None
         \<and> r_external_id r = r_external_id c)
      \<or> (r_title r = r_title c \<and> r_company r = r_company c \<and> r_location r = r_location c
         \<and> r_url r \<noteq> None \<and> r_url r = r_url c))"

text \<open>The two indexes as properties of the table.\<close>

definition uq_jobs_source_external :: "row list \<Rightarrow> bool" where
  "uq_jobs_source_external rs =
     distinct (map (\<lambda>r. (r_source r, r_external_id r))
                 (filter (\<lambda>r. r_external_id r \<noteq> None) rs))"

definition uq_jobs_fallback :: "row list \<Rightarrow> bool" where
  "uq_jobs_fallback rs =
     distinct (map (\<lambda>r. (r_title r, r_company r, r_location r, r_url r))
                 (filter (\<lambda>r. r_url r \<noteq> None) rs))"

text \<open>
  \<open>INSERT OR IGNORE\<close>: a row that collides with a stored one is dropped without an error
  and \<open>rowcount\<close> is 0; otherwise it is stored under the next \<open>id\<close> and \<open>rowcount\<close> is 1.
\<close>

definition insert_or_ignore :: "row \<Rightarrow> state \<Rightarrow> int \<times> state" where
  "insert_or_ignore c st =
     (if list_ex (\<lambda>r. sql_conflict r c) (rows st) then (0, st)
      else (1, st \<lparr> rows := rows st @ [c \<lparr> r_id := seq st + 1 \<rparr>], seq := seq st + 1 \<rparr>))"

text \<open>
  Binding the parameters. An \<open>int\<close> outside 64 bits raises \<open>OverflowError\<close>, a list or a
  dict cannot be bound (\<open>ProgrammingError\<close>), a \<open>NaN\<close> is bound as \<open>NULL\<close>. The column \<open>url\<close>
  has text affinity: a number is stored as its text, that of a float being the parameter
  \<open>real_text\<close>.
\<close>

definition int64 :: "int \<Rightarrow> bool" where
  "int64 n = (- (2 ^ 63) \<le> n \<and> n < 2 ^ 63)"

fun bind_text :: "(pyfloat \<Rightarrow> string) \<Rightarrow> json \<Rightarrow> exn + string option" where
  "bind_text real_text JNull = Inr None"
| "bind_text real_text (JStr s) = Inr (Some s)"
| "bind_text real_text (JBool b) = Inr (Some (if b then ''1'' else ''0''))"
| "bind_text real_text (JInt n) = (if int64 n then Inr (Some (str_int n)) else Inl OverflowError)"
| "bind_text real_text (JFloat NaN) = Inr None"
| "bind_text real_text (JFloat f) = Inr (Some (real_text f))"
| "bind_text real_text (JArr xs) = Inl ProgrammingError"
| "bind_text real_text (JObj kvs) = Inl ProgrammingError"

definition bind_row :: "(pyfloat \<Rightarrow> string) \<Rightarrow> job \<Rightarrow> int \<Rightarrow> exn + row" where
  "bind_row real_text j created =
     (case bind_text real_text (url j) of
        Inl e \<Rightarrow> Inl e
      | Inr u \<Rightarrow>
          if \<not> int64 (posted_at_utc j) \<or> \<not> int64 created then Inl OverflowError
          else Inr \<lparr> r_id = 0, r_source = source j, r_external_id = external_id j,
                     r_title = title j, r_company = company j, r_location = location j,
                     r_url = u, r_posted_at_utc = posted_at_utc j,
                     r_description = description j, r_created_at_utc = created \<rparr>)"

subsection \<open>Persistence helpers\<close>

text \<open>
  \<^verbatim>\<open>
  def save_jobs(conn, jobs):
      cur = conn.cursor()
      inserted = 0
      for j in jobs:
          try:
              cur.execute("""INSERT OR IGNORE INTO jobs(source, external_id, title, company,
                  location, url, posted_at_utc, description, created_at_utc)
                  VALUES(?,?,?,?,?,?,?,?,?)""", (
                  j["source"], j.get("external_id"), j["title"], j["company"], j["location"],
                  j["url"], j.get("posted_at_utc", 0), j.get("description", ""),
                  int(datetime.now(timezone.utc).timestamp())))
              if cur.rowcount > 0:
                  inserted += 1
          except sqlite3.IntegrityError:
              pass
          except Exception as e:
              logging.error("DB insert error: %s", e)
      conn.commit()
      return inserted
  \<close>
  The clock is read once for each job, inside the \<open>try\<close>.
\<close>

definition now_seconds :: "(nat \<Rightarrow> int) \<Rightarrow> nat \<Rightarrow> exn + int" where
  "now_seconds clock k = py_int (JFloat (timestamp (clock k)))"

definition insert_error :: "exn \<Rightarrow> state \<Rightarrow> state" where
  "insert_error e st =
     (if e = IntegrityError then st else logging ERROR ''DB insert error: %s'' st)"

definition save_job ::
  "(pyfloat \<Rightarrow> string) \<Rightarrow> (nat \<Rightarrow> int) \<Rightarrow> job \<Rightarrow> int \<times> state \<Rightarrow> int \<times> state" where
  "save_job real_text clock j acc =
     (case acc of (inserted, st) \<Rightarrow>
        (let st1 = st \<lparr> ticks := Suc (ticks st) \<rparr>
         in case now_seconds clock (ticks st) of
              Inl e \<Rightarrow> (inserted, insert_error e st1)
            | Inr created \<Rightarrow>
                (case bind_row real_text j created of
                   Inl e \<Rightarrow> (inserted, insert_error e st1)
                 | Inr c \<Rightarrow>
                     (case insert_or_ignore c st1 of
                        (rowcount, st2) \<Rightarrow>
                          (if rowcount > 0 then inserted + 1 else inserted, st2)))))"

definition save_jobs ::
  "(pyfloat \<Rightarrow> string) \<Rightarrow> (nat \<Rightarrow> int) \<Rightarrow> state \<Rightarrow> job list \<Rightarrow> int \<times> state" where
  "save_jobs real_text clock st jobs = foldl (\<lambda>acc j. save_job real_text clock j acc) (0, st) jobs"

text \<open>
  \<^verbatim>\<open>
  def fetch_unsent_jobs_since(conn, since_ts: int):
      cur = conn.cursor()
      cur.execute("""SELECT title, company, location, url, posted_at_utc FROM jobs
          WHERE created_at_utc >= ? ORDER BY posted_at_utc DESC LIMIT ?""",
          (since_ts, MAX_RESULTS_PER_RUN))
      return cur.fetchall()
  \<close>
  A negative \<open>LIMIT\<close> is no limit. Rows with the same \<open>posted_at_utc\<close> come in \<open>rowid\<close> order
  here; SQL leaves their order open.
\<close>

definition sql_limit :: "int \<Rightarrow> 'a list \<Rightarrow> 'a list" where
  "sql_limit n xs = (if n < 0 then xs else take (nat n) xs)"

definition selected :: "int \<Rightarrow> row list \<Rightarrow> row list" where
  "selected since_ts rs =
     sort_key (\<lambda>r. - r_posted_at_utc r) (filter (\<lambda>r. since_ts \<le> r_created_at_utc r) rs)"

definition columns :: "row \<Rightarrow> string \<times> string \<times> string \<times> string option \<times> int" where
  "columns r = (r_title r, r_company r, r_location r, r_url r, r_posted_at_utc r)"

definition fetch_unsent_jobs_since ::
  "config \<Rightarrow> state \<Rightarrow> int
     \<Rightarrow> exn + (string \<times> string \<times> string \<times> string option \<times> int) list" where
  "fetch_unsent_jobs_since cfg st since_ts =
     (if \<not> int64 since_ts \<or> \<not> int64 (MAX_RESULTS_PER_RUN cfg) then Inl OverflowError
      else Inr (map columns (sql_limit (MAX_RESULTS_PER_RUN cfg) (selected since_ts (rows st)))))"

section \<open>Properties\<close>

subsection \<open>The recency predicate\<close>

text \<open>
  The claim read on every integer fails: on a timestamp beyond the doubles the function
  returns nothing, it raises. The provider can send one, since \<open>int\<close> keeps a JSON integer
  of any length.
\<close>

theorem posted_recent_overflow:
  "posted_recent (Fin 1700000000 0) (10 ^ 400) (Fin 6 0) = Inl OverflowError"
  by code_simp

text \<open>
  C4. At every clock value \<open>now\<close> and maximum age, \<open>posted_recent\<close> is false on the timestamp
  0. On another timestamp that has a nearest double \<open>f\<close> it is true exactly when
  \<open>(now - f) / 3600.0 <= max_age_hours\<close>, the three operations being those of the doubles;
  on a timestamp with no nearest double it raises \<open>OverflowError\<close>.
\<close>

theorem posted_recent_spec:
  "posted_recent now 0 max_age_hours = Inr False
   \<and> (posted_ts \<noteq> 0 \<and> float_of_int posted_ts = Inr f \<longrightarrow>
        posted_recent now posted_ts max_age_hours
          = Inr (fle (fdiv (fsub now f) 3600) max_age_hours))
   \<and> (posted_ts \<noteq> 0 \<and> float_of_int posted_ts = Inl e \<longrightarrow>
        posted_recent now posted_ts max_age_hours = Inl e)"
  by (simp add: posted_recent_def Let_def)

theorem posted_recent_spec_witness:
  "posted_recent (Fin 1700000000 0) 0 (Fin 6 0) = Inr False
   \<and> posted_recent (Fin 1700000000 0) 1699990000 (Fin 6 0) = Inr True
   \<and> posted_recent (Fin 1700000000 0) 1699974800 (Fin 6 0) = Inr False
   \<and> posted_recent (Fin 1700000000 0) (2 ^ 1024) (Fin 6 0) = Inl OverflowError"
proof -
  have a: "float_of_int 1699990000 = Inr (Fin (shl 1699990000 22) (- 22))"
    by code_simp
  have b: "fle (fdiv (fsub (Fin 1700000000 0) (Fin (shl 1699990000 22) (- 22))) 3600) (Fin 6 0)"
    by code_simp
  have c: "float_of_int 1699974800 = Inr (Fin (shl 1699974800 22) (- 22))"
    by code_simp
  have d: "\<not> fle (fdiv (fsub (Fin 1700000000 0) (Fin (shl 1699974800 22) (- 22))) 3600) (Fin 6 0)"
    by code_simp
  have e: "float_of_int (2 ^ 1024) = Inl OverflowError"
    by code_simp
  show ?thesis
    using posted_recent_spec [of "Fin 1700000000 0" "Fin 6 0" 1699990000 "Fin (shl 1699990000 22) (- 22)" OverflowError]
      posted_recent_spec [of "Fin 1700000000 0" "Fin 6 0" 1699974800 "Fin (shl 1699974800 22) (- 22)" OverflowError]
      posted_recent_spec [of "Fin 1700000000 0" "Fin 6 0" "2 ^ 1024" "Fin 0 0" OverflowError]
      a b c d e
    by simp
qed

subsection \<open>The experience predicate on the documented inputs\<close>

text \<open>
  C5. With the default experience keywords, \<open>experience_ok\<close> accepts "Fresher opportunity",
  "0-6 months experience required", "Entry Level Developer", "No experience necessary" and
  "0+ years exp ok", and rejects "5 years experience required".
\<close>

theorem experience_ok_examples:
  "experience_ok default_EXP_KEYWORDS ''Fresher opportunity''
   \<and> experience_ok default_EXP_KEYWORDS ''0-6 months experience required''
   \<and> experience_ok default_EXP_KEYWORDS ''Entry Level Developer''
   \<and> experience_ok default_EXP_KEYWORDS ''No experience necessary''
   \<and> experience_ok default_EXP_KEYWORDS ''0+ years exp ok''
   \<and> experience_ok default_EXP_KEYWORDS ''5 years experience required'' = False"
  by code_simp

subsection \<open>Normalisation never raises on the recognised shapes\<close>









subsection \<open>The pipeline keeps an item exactly when the four predicates hold\<close>



subsection \<open>De-duplication keeps one job per key, the last one\<close>

lemma plain_key_dedup_key:
  assumes "plain_key j"
  shows "\<exists>k. \<forall>i. dedup_key i j = Inr k"
proof (cases "case external_id j of Some s \<Rightarrow> s \<noteq> [] | None \<Rightarrow> False")
  case True
  then obtain s where "external_id j = Some s" "s \<noteq> []"
    by (auto split: option.splits)
  then have "\<forall>i. dedup_key i j = Inr (KId s)"
    by (simp add: dedup_key_def)
  then show ?thesis ..
next
  case False
  with assms have u: "case url j of JArr xs \<Rightarrow> False | JObj kvs \<Rightarrow> False | JFloat NaN \<Rightarrow> False | _ \<Rightarrow> True"
    by (simp add: plain_key_def)
  then have "\<exists>h. \<forall>i. hash_val i (url j) = Inr h"
    by (cases "url j") (auto split: pyfloat.splits)
  then obtain h where "\<forall>i. hash_val i (url j) = Inr h" ..
  with False have "\<forall>i. dedup_key i j = Inr (KTup (title j) (company j) (location j) h)"
    by (auto simp: dedup_key_def split: option.splits)
  then show ?thesis ..
qed

lemma dict_set_keys:
  "map fst (dict_set d k v) = (if k \<in> set (map fst d) then map fst d else map fst d @ [k])"
proof (induction d)
  case Nil
  show ?case by simp
next
  case (Cons p d)
  obtain k' v' where p: "p = (k', v')" by (cases p)
  show ?case
  proof (cases "k' = k")
    case True
    then show ?thesis by (simp add: p)
  next
    case False
    then show ?thesis using Cons by (simp add: p)
  qed
qed

lemma dict_set_distinct:
  "distinct (map fst d) \<Longrightarrow> distinct (map fst (dict_set d k v))"
  by (simp add: dict_set_keys)

lemma dict_set_set:
  "distinct (map fst d) \<Longrightarrow> set (dict_set d k v) = {p \<in> set d. fst p \<noteq> k} \<union> {(k, v)}"
proof (induction d)
  case Nil
  show ?case by simp
next
  case (Cons p d)
  obtain k' v' where p: "p = (k', v')" by (cases p)
  from Cons.prems have nk: "k' \<notin> fst ` set d" and dd: "distinct (map fst d)"
    by (simp_all add: p)
  show ?case
  proof (cases "k' = k")
    case True
    with nk have "{q \<in> set ((k, v') # d). fst q \<noteq> k} = set d"
      by force
    with True show ?thesis
      by (simp add: p del: set_simps) simp
  next
    case False
    with Cons.IH [OF dd] show ?thesis
      by (auto simp: p)
  qed
qed

lemma find_snoc:
  "find q (xs @ [x]) = (case find q xs of Some y \<Rightarrow> Some y | None \<Rightarrow> if q x then Some x else None)"
  by (induction xs) auto

lemma dedup_loop_inv:
  assumes "list_all plain_key js"
    and "distinct (map fst d)"
    and "\<forall>p \<in> set d. dedup_key 0 (snd p) = Inr (fst p)"
  shows "\<exists>d'. dedup_loop i d js = Inr d'
           \<and> distinct (map fst d')
           \<and> (\<forall>p \<in> set d'. dedup_key 0 (snd p) = Inr (fst p))
           \<and> set (map fst d') = set (map fst d) \<union> {k. \<exists>j \<in> set js. dedup_key 0 j = Inr k}
           \<and> (\<forall>p \<in> set d'. case find (\<lambda>j. dedup_key 0 j = Inr (fst p)) (rev js) of
                                Some j \<Rightarrow> snd p = j
                              | None \<Rightarrow> p \<in> set d)"
  using assms
proof (induction js arbitrary: d i)
  case Nil
  then show ?case by simp
next
  case (Cons j js)
  from Cons.prems(1) have pj: "plain_key j" and pjs: "list_all plain_key js"
    by simp_all
  from plain_key_dedup_key [OF pj] obtain k where k: "\<And>i. dedup_key i j = Inr k"
    by blast
  let ?d = "dict_set d k j"
  have d1: "distinct (map fst ?d)"
    by (rule dict_set_distinct [OF Cons.prems(2)])
  have ds: "set ?d = {p \<in> set d. fst p \<noteq> k} \<union> {(k, j)}"
    by (rule dict_set_set [OF Cons.prems(2)])
  have d2: "\<forall>p \<in> set ?d. dedup_key 0 (snd p) = Inr (fst p)"
    using Cons.prems(3) k by (auto simp: ds)
  from Cons.IH [OF pjs d1 d2, of "Suc i"] obtain d' where
    r: "dedup_loop (Suc i) ?d js = Inr d'"
    and a: "distinct (map fst d')"
    and b: "\<forall>p \<in> set d'. dedup_key 0 (snd p) = Inr (fst p)"
    and c: "set (map fst d') = set (map fst ?d) \<union> {k. \<exists>j \<in> set js. dedup_key 0 j = Inr k}"
    and e: "\<forall>p \<in> set d'. case find (\<lambda>j. dedup_key 0 j = Inr (fst p)) (rev js) of
                                Some j \<Rightarrow> snd p = j
                              | None \<Rightarrow> p \<in> set ?d"
    by blast
  have r': "dedup_loop i d (j # js) = Inr d'"
    using r k by simp
  have c': "set (map fst d') = set (map fst d) \<union> {k. \<exists>j \<in> set (j # js). dedup_key 0 j = Inr k}"
    using c k by (auto simp: dict_set_keys)
  have e': "\<forall>p \<in> set d'. case find (\<lambda>j. dedup_key 0 j = Inr (fst p)) (rev (j # js)) of
                                Some j \<Rightarrow> snd p = j
                              | None \<Rightarrow> p \<in> set d"
  proof
    fix p assume p: "p \<in> set d'"
    show "case find (\<lambda>j. dedup_key 0 j = Inr (fst p)) (rev (j # js)) of
            Some j \<Rightarrow> snd p = j | None \<Rightarrow> p \<in> set d"
    proof (cases "find (\<lambda>j. dedup_key 0 j = Inr (fst p)) (rev js)")
      case (Some y)
      with e p show ?thesis
        by (auto simp: find_snoc)
    next
      case None
      with e p have pd: "p \<in> set ?d" by force
      show ?thesis
      proof (cases "fst p = k")
        case True
        with pd ds have "p = (k, j)" by auto
        with None k show ?thesis by (simp add: find_snoc)
      next
        case False
        with pd ds have "p \<in> set d" by auto
        with None False k show ?thesis by (simp add: find_snoc)
      qed
    qed
  qed
  from r' a b c' e' show ?case by blast
qed


text \<open>
  The claim read on every list of collected jobs fails: a job without an external
  identifier whose link is a JSON array has a key that cannot be hashed, and the loop
  raises \<open>TypeError\<close> instead of producing a list.
\<close>

theorem dedup_unhashable:
  "dedup [\<lparr> source = ''jsearch'', external_id = None, title = ''Dev'', company = ''Acme'',
            location = ''Pune'', description = [], url = JArr [JStr ''https://example.org/1''],
            posted_at_utc = 1699990000 \<rparr>] = Inl TypeError"
  by code_simp

text \<open>
  C10. When every collected job has a non-empty external identifier or a link that can be
  hashed, the de-duplication returns a list with exactly one job per key: the keys of the
  result are distinct and are the keys of the collected jobs. The key is the external
  identifier when there is one, else the tuple of title, company, location and link. The
  job kept for a key is the last one with that key in fetch order.
\<close>

theorem dedup_spec:
  assumes "list_all plain_key collected"
  shows "\<exists>unique. dedup collected = Inr unique
           \<and> distinct (map (dedup_key 0) unique)
           \<and> set (map (dedup_key 0) unique) = set (map (dedup_key 0) collected)
           \<and> list_all (\<lambda>j. find (\<lambda>j'. dedup_key 0 j' = dedup_key 0 j) (rev collected) = Some j)
                unique"
proof -
  from dedup_loop_inv [OF assms, of "[]" 0]
  obtain d' where r: "dedup_loop 0 [] collected = Inr d'"
    and a: "distinct (map fst d')"
    and b: "\<forall>p \<in> set d'. dedup_key 0 (snd p) = Inr (fst p)"
    and c: "set (map fst d') = {k. \<exists>j \<in> set collected. dedup_key 0 j = Inr k}"
    and e: "\<forall>p \<in> set d'. case find (\<lambda>j. dedup_key 0 j = Inr (fst p)) (rev collected) of
                                Some j \<Rightarrow> snd p = j
                              | None \<Rightarrow> p \<in> set ([] :: (key \<times> job) list)"
    by auto
  have m: "map (dedup_key 0) (map snd d') = map Inr (map fst d')"
    using b by simp
  have 1: "dedup collected = Inr (map snd d')"
    by (simp add: dedup_def r)
  have "distinct (map (Inr :: key \<Rightarrow> exn + key) (map fst d'))"
    using a by (subst distinct_map) (simp add: inj_on_def)
  then have 2: "distinct (map (dedup_key 0) (map snd d'))"
    unfolding m .
  have pl: "\<exists>k. dedup_key 0 j = Inr k" if "j \<in> set collected" for j
  proof -
    from that assms have "plain_key j"
      by (simp add: list_all_iff)
    from plain_key_dedup_key [OF this] show ?thesis
      by blast
  qed
  have ms: "set (map (dedup_key 0) (map snd d')) = {x. \<exists>k \<in> set (map fst d'). x = Inr k}"
  proof (intro set_eqI iffI)
    fix x :: "exn + key" assume "x \<in> set (map (dedup_key 0) (map snd d'))"
    then obtain p where "p \<in> set d'" "x = dedup_key 0 (snd p)"
      by auto
    with b have "fst p \<in> set (map fst d')" "x = Inr (fst p)"
      by auto
    then show "x \<in> {x. \<exists>k \<in> set (map fst d'). x = Inr k}"
      by blast
  next
    fix x :: "exn + key" assume "x \<in> {x. \<exists>k \<in> set (map fst d'). x = Inr k}"
    then obtain p where p: "p \<in> set d'" "x = Inr (fst p)"
      by auto
    with b have x: "x = dedup_key 0 (snd p)"
      by auto
    from p(1) have "dedup_key 0 (snd p) \<in> (\<lambda>q. dedup_key 0 (snd q)) ` set d'"
      by (rule imageI)
    with x show "x \<in> set (map (dedup_key 0) (map snd d'))"
      by simp
  qed
  have cs: "set (map (dedup_key 0) collected)
              = {x. \<exists>k \<in> {k. \<exists>j \<in> set collected. dedup_key 0 j = Inr k}. x = Inr k}"
  proof (intro set_eqI iffI)
    fix x :: "exn + key" assume "x \<in> set (map (dedup_key 0) collected)"
    then obtain j where j: "j \<in> set collected" "x = dedup_key 0 j"
      by auto
    from pl [OF j(1)] obtain k where "dedup_key 0 j = Inr k" ..
    with j show "x \<in> {x. \<exists>k \<in> {k. \<exists>j \<in> set collected. dedup_key 0 j = Inr k}. x = Inr k}"
      by blast
  next
    fix x :: "exn + key" assume "x \<in> {x. \<exists>k \<in> {k. \<exists>j \<in> set collected. dedup_key 0 j = Inr k}. x = Inr k}"
    then obtain j where j: "j \<in> set collected" "x = dedup_key 0 j"
      by auto
    from j(1) have "dedup_key 0 j \<in> dedup_key 0 ` set collected"
      by (rule imageI)
    with j(2) show "x \<in> set (map (dedup_key 0) collected)"
      by simp
  qed
  have 3: "set (map (dedup_key 0) (map snd d')) = set (map (dedup_key 0) collected)"
    unfolding ms cs c ..
  have 4: "list_all (\<lambda>j. find (\<lambda>j'. dedup_key 0 j' = dedup_key 0 j) (rev collected) = Some j)
             (map snd d')"
    unfolding list_all_iff
  proof
    fix j assume "j \<in> set (map snd d')"
    then obtain p where p: "p \<in> set d'" "j = snd p"
      by auto
    from b p have kj: "dedup_key 0 j = Inr (fst p)"
      by simp
    from e p(1) have "find (\<lambda>j'. dedup_key 0 j' = Inr (fst p)) (rev collected) = Some (snd p)"
      by (auto split: option.splits)
    with kj p(2) show "find (\<lambda>j'. dedup_key 0 j' = dedup_key 0 j) (rev collected) = Some j"
      by simp
  qed
  from 1 2 3 4 show ?thesis
    by blast
qed

theorem dedup_spec_witness:
  "list_all plain_key
     [\<lparr> source = ''jsearch'', external_id = Some ''x1'', title = ''Dev'', company = ''Acme'',
         location = ''Pune'', description = ''page 1'', url = JStr ''https://example.org/1'',
         posted_at_utc = 1699990000 \<rparr>,
      \<lparr> source = ''jsearch'', external_id = None, title = ''Web Developer'', company = ''Bolt'',
         location = ''Remote'', description = [], url = JStr ''https://example.org/2'',
         posted_at_utc = 1699990001 \<rparr>,
      \<lparr> source = ''jsearch'', external_id = Some ''x1'', title = ''Dev'', company = ''Acme'',
         location = ''Pune'', description = ''page 2'', url = JStr ''https://example.org/1'',
         posted_at_utc = 1699990002 \<rparr>]
   \<and> dedup
     [\<lparr> source = ''jsearch'', external_id = Some ''x1'', title = ''Dev'', company = ''Acme'',
         location = ''Pune'', description = ''page 1'', url = JStr ''https://example.org/1'',
         posted_at_utc = 1699990000 \<rparr>,
      \<lparr> source = ''jsearch'', external_id = None, title = ''Web Developer'', company = ''Bolt'',
         location = ''Remote'', description = [], url = JStr ''https://example.org/2'',
         posted_at_utc = 1699990001 \<rparr>,
      \<lparr> source = ''jsearch'', external_id = Some ''x1'', title = ''Dev'', company = ''Acme'',
         location = ''Pune'', description = ''page 2'', url = JStr ''https://example.org/1'',
         posted_at_utc = 1699990002 \<rparr>]
     = Inr
     [\<lparr> source = ''jsearch'', external_id = Some ''x1'', title = ''Dev'', company = ''Acme'',
         location = ''Pune'', description = ''page 2'', url = JStr ''https://example.org/1'',
         posted_at_utc = 1699990002 \<rparr>,
      \<lparr> source = ''jsearch'', external_id = None, title = ''Web Developer'', company = ''Bolt'',
         location = ''Remote'', description = [], url = JStr ''https://example.org/2'',
         posted_at_utc = 1699990001 \<rparr>]
   \<and> (\<exists>unique. dedup
     [\<lparr> source = ''jsearch'', external_id = Some ''x1'', title = ''Dev'', company = ''Acme'',
         location = ''Pune'', description = ''page 1'', url = JStr ''https://example.org/1'',
         posted_at_utc = 1699990000 \<rparr>,
      \<lparr> source = ''jsearch'', external_id = None, title = ''Web Developer'', company = ''Bolt'',
         location = ''Remote'', description = [], url = JStr ''https://example.org/2'',
         posted_at_utc = 1699990001 \<rparr>,
      \<lparr> source = ''jsearch'', external_id = Some ''x1'', title = ''Dev'', company = ''Acme'',
         location = ''Pune'', description = ''page 2'', url = JStr ''https://example.org/1'',
         posted_at_utc = 1699990002 \<rparr>] = Inr unique
        \<and> distinct (map (dedup_key 0) unique))"
proof -
  let ?xs = "[\<lparr> source = ''jsearch'', external_id = Some ''x1'', title = ''Dev'', company = ''Acme'',
         location = ''Pune'', description = ''page 1'', url = JStr ''https://example.org/1'',
         posted_at_utc = 1699990000 \<rparr>,
      \<lparr> source = ''jsearch'', external_id = None, title = ''Web Developer'', company = ''Bolt'',
         location = ''Remote'', description = [], url = JStr ''https://example.org/2'',
         posted_at_utc = 1699990001 \<rparr>,
      \<lparr> source = ''jsearch'', external_id = Some ''x1'', title = ''Dev'', company = ''Acme'',
         location = ''Pune'', description = ''page 2'', url = JStr ''https://example.org/1'',
         posted_at_utc = 1699990002 \<rparr>]"
  have h: "list_all plain_key ?xs"
    by code_simp
  have v: "dedup ?xs = Inr
     [\<lparr> source = ''jsearch'', external_id = Some ''x1'', title = ''Dev'', company = ''Acme'',
         location = ''Pune'', description = ''page 2'', url = JStr ''https://example.org/1'',
         posted_at_utc = 1699990002 \<rparr>,
      \<lparr> source = ''jsearch'', external_id = None, title = ''Web Developer'', company = ''Bolt'',
         location = ''Remote'', description = [], url = JStr ''https://example.org/2'',
         posted_at_utc = 1699990001 \<rparr>]"
    by code_simp
  from dedup_spec [OF h] h v show ?thesis
    by blast
qed

end
